theory Spec2Isabelle
  imports Main
begin

section \<open>Role-based access check of \<open>03-roleBasedAccess.ts\<close>\<close>

text \<open>
  The module declares one object literal, \<open>userAccessModel\<close>, two types derived from
  it (\<open>Role\<close>, \<open>Action\<close>) and one function, \<open>canUserAccess\<close>. TypeScript erases the types
  when it compiles, so the function is modelled on what runs: property names and array
  members are strings, a call returns a boolean or throws, and the object the module
  created when it was loaded is passed to the call and returned by it. What the types
  do before the program runs is modelled apart, as the check of a call's arguments
  against the parameter annotations.
\<close>

subsection \<open>The object literal\<close>

text \<open>
  \<^verbatim>\<open>
  const userAccessModel = {
    user: ["update-self", "view"],
    admin: ["create", "update-self", "update-any", "delete", "view"],
    anonymous: ["view"],
  } as const;
  \<close>
  An object with three own properties, in the order of the literal, each holding an
  array of strings. \<open>as const\<close> changes the inferred type only; no \<open>Object.freeze\<close> is
  called, so the object stays an ordinary mutable value of the heap.
\<close>

type_synonym access_model = "(string \<times> string list) list"

definition userAccessModel :: access_model where
  "userAccessModel =
     [(''user'', [''update-self'', ''view'']),
      (''admin'', [''create'', ''update-self'', ''update-any'', ''delete'', ''view'']),
      (''anonymous'', [''view''])]"

subsection \<open>The derived types\<close>

text \<open>
  \<^verbatim>\<open>
  export type Role = keyof typeof userAccessModel;
  type UserAccessModelValues = typeof userAccessModel[Role];
  type Action = UserAccessModelValues[number];
  \<close>
  A union of string literal types is the set of its members. \<open>keyof\<close> collects the
  property names of the literal, the indexed access by \<open>Role\<close> collects the tuple found
  under each of these names, and the indexed access by \<open>number\<close> collects the members of
  all these tuples.
\<close>

definition Role :: "string set" where
  "Role = set (map fst userAccessModel)"

definition UserAccessModelValues :: "string list list" where
  "UserAccessModelValues =
     List.map_filter (map_of userAccessModel) (map fst userAccessModel)"

definition Action :: "string set" where
  "Action = set (concat UserAccessModelValues)"

subsection \<open>The function\<close>

text \<open>
  \<^verbatim>\<open>
  export const canUserAccess = (role: Role, action: Action) => {
    const possibleActions = userAccessModel[role];
    return possibleActions.includes(action as any);
  };
  \<close>
  \<open>array_includes\<close> is \<open>Array.prototype.includes\<close>: it walks the array from index 0
  and answers \<open>true\<close> at the first member equal to the argument (on strings,
  \<open>SameValueZero\<close> is equality of the strings), \<open>false\<close> when it reaches the end.

  The property read \<open>userAccessModel[role]\<close> gives the array when \<open>role\<close> names an own
  property. For every other string it gives \<open>undefined\<close> or a member inherited from
  \<open>Object.prototype\<close>; neither has a method \<open>includes\<close>, so the call on the next line
  throws a \<open>TypeError\<close>. The function has no \<open>throw\<close> of its own and writes to nothing.

  Both arguments are strings, the values that the parameter types admit. A value of
  another kind, which the property read would first convert to a string, is not
  modelled.
\<close>

datatype error = TypeError

fun array_includes :: "string list \<Rightarrow> string \<Rightarrow> bool" where
  "array_includes [] searchElement = False"
| "array_includes (x # xs) searchElement =
     (if x = searchElement then True else array_includes xs searchElement)"

definition canUserAccess ::
  "access_model \<Rightarrow> string \<Rightarrow> string \<Rightarrow> (error + bool) \<times> access_model" where
  "canUserAccess store role action =
     (case map_of store role of
        None \<Rightarrow> (Inl TypeError, store)
      | Some possibleActions \<Rightarrow> (Inr (array_includes possibleActions action), store))"

text \<open>
  A sequence of calls, each running on the object the previous one left behind; the
  results are dropped.
\<close>

fun calls :: "(string \<times> string) list \<Rightarrow> access_model \<Rightarrow> access_model" where
  "calls [] store = store"
| "calls ((role, action) # cs) store = calls cs (snd (canUserAccess store role action))"

subsection \<open>The call site\<close>




subsection \<open>The permission table as the specification writes it\<close>

text \<open>
  Not taken from the source: the table of the specification's data model, row by row,
  for comparison with what \<open>canUserAccess\<close> computes. A name that is not one of the
  three roles has no row.

  | user | update-self, view |
  | admin | create, update-self, update-any, delete, view |
  | anonymous | view |
\<close>

definition spec_PermissionTable :: "string \<Rightarrow> string list" where
  "spec_PermissionTable role =
     (if role = ''user'' then [''update-self'', ''view'']
      else if role = ''admin'' then
        [''create'', ''update-self'', ''update-any'', ''delete'', ''view'']
      else if role = ''anonymous'' then [''view'']
      else [])"

section \<open>Basic facts\<close>

lemma array_includes_set: "array_includes xs a \<longleftrightarrow> a \<in> set xs"
  by (induction xs) auto

lemma canUserAccess_store: "snd (canUserAccess store role action) = store"
  by (simp add: canUserAccess_def split: option.split)

lemma calls_store: "calls cs store = store"
  by (induction cs arbitrary: store) (auto simp: canUserAccess_store)

lemma Role_members: "Role = {''user'', ''admin'', ''anonymous''}"
  by (auto simp: Role_def userAccessModel_def)

lemma UserAccessModelValues_members:
  "UserAccessModelValues =
     [[''update-self'', ''view''],
      [''create'', ''update-self'', ''update-any'', ''delete'', ''view''],
      [''view'']]"
  by (simp add: UserAccessModelValues_def userAccessModel_def List.map_filter_def)

lemma Action_members:
  "Action = {''create'', ''update-self'', ''update-any'', ''delete'', ''view''}"
  by (auto simp: Action_def UserAccessModelValues_members)

section \<open>The claims\<close>

text \<open>
  C1. For every role among user, admin and anonymous and every action among create,
  update-self, update-any, delete and view, \<open>canUserAccess(role, action)\<close> returns
  \<open>true\<close> exactly when the action is in the role's row of the permission table, and
  \<open>false\<close> otherwise.
\<close>

theorem canUserAccess_is_table_membership:
  assumes "role \<in> {''user'', ''admin'', ''anonymous''}"
    and "action \<in> {''create'', ''update-self'', ''update-any'', ''delete'', ''view''}"
  shows "fst (canUserAccess userAccessModel role action) =
           Inr (action \<in> set (spec_PermissionTable role))"
  using assms
  by (auto simp: canUserAccess_def userAccessModel_def spec_PermissionTable_def)

theorem canUserAccess_is_table_membership_witness:
  "''anonymous'' \<in> {''user'', ''admin'', ''anonymous''} \<and>
   ''create'' \<in> {''create'', ''update-self'', ''update-any'', ''delete'', ''view''} \<and>
   ''create'' \<notin> set (spec_PermissionTable ''anonymous'') \<and>
   fst (canUserAccess userAccessModel ''anonymous'' ''create'') = Inr False"
  using canUserAccess_is_table_membership [of "''anonymous''" "''create''"]
  by (simp add: spec_PermissionTable_def)

text \<open>
  C2. \<open>canUserAccess\<close> is deterministic: two calls with the same role and the same
  action return the same result, whatever calls were made before each of them. The
  result depends on the two arguments only.
\<close>

theorem canUserAccess_deterministic:
  "fst (canUserAccess (calls earlier userAccessModel) role action) =
   fst (canUserAccess (calls earlier' userAccessModel) role action)"
  by (simp add: calls_store)

text \<open>
  C3. For every role of \<open>Role\<close> and every action of \<open>Action\<close>, the call returns a
  boolean: it does not throw.
\<close>

theorem canUserAccess_returns_boolean:
  assumes "role \<in> Role" and "action \<in> Action"
  shows "\<exists>b. fst (canUserAccess userAccessModel role action) = Inr b"
  using assms(1) unfolding Role_members
  by (auto simp: canUserAccess_def userAccessModel_def)

theorem canUserAccess_returns_boolean_witness:
  "''user'' \<in> Role \<and> ''update-any'' \<in> Action \<and>
   (\<exists>b. fst (canUserAccess userAccessModel ''user'' ''update-any'') = Inr b)"
  using canUserAccess_returns_boolean [of "''user''" "''update-any''"]
  by (simp add: Role_members Action_members)



text \<open>
  C5. Every list of actions in the permission table is free of duplicates, and a call
  of \<open>canUserAccess\<close> leaves the table as it found it: after one call, and after any
  sequence of calls, the table is the one the module created.
\<close>

theorem table_distinct_and_unchanged:
  "((role, actions) \<in> set userAccessModel \<longrightarrow> distinct actions) \<and>
   snd (canUserAccess userAccessModel role' action) = userAccessModel \<and>
   calls cs userAccessModel = userAccessModel"
  by (auto simp: canUserAccess_store calls_store userAccessModel_def)

theorem table_distinct_and_unchanged_witness:
  "(''admin'', [''create'', ''update-self'', ''update-any'', ''delete'', ''view''])
     \<in> set userAccessModel \<and>
   distinct [''create'', ''update-self'', ''update-any'', ''delete'', ''view''] \<and>
   snd (canUserAccess userAccessModel ''admin'' ''delete'') = userAccessModel \<and>
   calls [(''admin'', ''delete''), (''guest'', ''view'')] userAccessModel = userAccessModel"
proof -
  have row: "(''admin'', [''create'', ''update-self'', ''update-any'', ''delete'', ''view''])
      \<in> set userAccessModel"
    by (simp add: userAccessModel_def)
  from row table_distinct_and_unchanged
    [of "''admin''" "[''create'', ''update-self'', ''update-any'', ''delete'', ''view'']"
        "''admin''" "''delete''" "[(''admin'', ''delete''), (''guest'', ''view'')]"]
  show ?thesis by (simp del: calls.simps)
qed


text \<open>
  C7. \<open>canUserAccess("admin", "delete")\<close> returns \<open>true\<close>.
\<close>

theorem admin_delete_true:
  "fst (canUserAccess userAccessModel ''admin'' ''delete'') = Inr True"
  by (simp add: canUserAccess_def userAccessModel_def)

text \<open>
  C8. \<open>canUserAccess("user", "delete")\<close> returns \<open>false\<close>.
\<close>

theorem user_delete_false:
  "fst (canUserAccess userAccessModel ''user'' ''delete'') = Inr False"
  by (simp add: canUserAccess_def userAccessModel_def)

text \<open>
  C9. \<open>canUserAccess("admin", action)\<close> returns \<open>true\<close> for every action of \<open>Action\<close>, so
  whatever another role may do, admin may do too.
\<close>

theorem admin_permits_every_action:
  "(action \<in> Action \<longrightarrow> fst (canUserAccess userAccessModel ''admin'' action) = Inr True) \<and>
   (role \<in> Role \<longrightarrow> fst (canUserAccess userAccessModel role action') = Inr True \<longrightarrow>
      fst (canUserAccess userAccessModel ''admin'' action') = Inr True)"
  unfolding Role_members Action_members
  by (auto simp: canUserAccess_def userAccessModel_def split: if_splits)

theorem admin_permits_every_action_witness:
  "''update-any'' \<in> Action \<and>
   fst (canUserAccess userAccessModel ''admin'' ''update-any'') = Inr True \<and>
   ''user'' \<in> Role \<and>
   fst (canUserAccess userAccessModel ''user'' ''update-self'') = Inr True \<and>
   fst (canUserAccess userAccessModel ''admin'' ''update-self'') = Inr True"
  using admin_permits_every_action [of "''update-any''" "''user''" "''update-self''"]
  by (simp add: Role_members Action_members canUserAccess_def userAccessModel_def)

text \<open>
  C10. \<open>canUserAccess(role, "view")\<close> returns \<open>true\<close> for every role of \<open>Role\<close>,
  anonymous included.
\<close>

theorem every_role_may_view:
  "role \<in> Role \<Longrightarrow> fst (canUserAccess userAccessModel role ''view'') = Inr True"
  unfolding Role_members
  by (auto simp: canUserAccess_def userAccessModel_def)

theorem every_role_may_view_witness:
  "''anonymous'' \<in> Role \<and>
   fst (canUserAccess userAccessModel ''anonymous'' ''view'') = Inr True"
  using every_role_may_view [of "''anonymous''"]
  by (simp add: Role_members)

end
